theory Spec2Isabelle
  imports Complex_Main "HOL-Library.Word"
begin

section \<open>VERDICOM PRO: the numeric pipeline of \<open>verdicom_pro.py\<close>\<close>

text \<open>
  The theory embeds the five numeric functions of the viewer: \<open>get_pixel_array\<close>,
  \<open>default_window\<close>, \<open>apply_window\<close>, \<open>to_pil\<close> and the windowing and statistics
  steps written inline in \<open>main\<close>.

  Conventions of the embedding.
  \<^item> The floating-point numbers of numpy and Python are modelled by \<open>real\<close>: arithmetic
    is exact. Rounding error, overflow to infinity and the absorption of a small
    addend by a large one are outside the model.
  \<^item> An array is its shape together with its elements in row-major order.
  \<^item> A Python exception is a value \<open>Inl e\<close>. numpy does not raise for a division by
    zero: it warns and stores NaN or an infinity, whose later cast to \<open>uint8\<close> is
    unspecified. The model stops such a run with \<open>Inl InvalidValue\<close>, as it does for
    the percentile of an array with no element (NaN or an exception, depending on
    the numpy version).
\<close>

subsection \<open>Data model\<close>

datatype error = TypeError | IndexError | AttributeError | ValueError | InvalidValue

text \<open>The value of a decimal attribute of a decoded dataset: a single number, or a
  \<open>pydicom.multival.MultiValue\<close> holding several.\<close>

datatype attr = Scalar real | MultiValue "real list"

record 'a ndarray =
  shape :: "nat list"
  elems :: "'a list"

text \<open>The attributes of the dataset that the pipeline reads; \<open>None\<close> is an attribute
  that the dataset does not have.\<close>

record dataset =
  pixel_array :: "int ndarray option"
  RescaleIntercept :: "attr option"
  RescaleSlope :: "attr option"
  WindowCenter :: "attr option"
  WindowWidth :: "attr option"

type_synonym uint8 = "8 word"

subsection \<open>The numpy and Python primitives the source calls\<close>

definition ndim :: "'a ndarray \<Rightarrow> nat" where
  "ndim a = length (shape a)"

text \<open>An elementwise operation keeps the shape.\<close>

definition nd_map :: "('a \<Rightarrow> 'b) \<Rightarrow> 'a ndarray \<Rightarrow> 'b ndarray" where
  "nd_map f a = \<lparr>shape = shape a, elems = map f (elems a)\<rparr>"

text \<open>\<open>getattr(ds, name, default)\<close>.\<close>

fun getattr :: "attr option \<Rightarrow> attr \<Rightarrow> attr" where
  "getattr None d = d"
| "getattr (Some a) d = a"

text \<open>\<open>float(v)\<close>: a MultiValue is a sequence, which \<open>float\<close> rejects.\<close>

fun py_float :: "attr \<Rightarrow> error + real" where
  "py_float (Scalar v) = Inr v"
| "py_float (MultiValue vs) = Inl TypeError"

text \<open>\<open>np.clip(a, lo, hi)\<close> is \<open>minimum(maximum(a, lo), hi)\<close>.\<close>

definition np_clip :: "real \<Rightarrow> real \<Rightarrow> real \<Rightarrow> real" where
  "np_clip x lo hi = min (max x lo) hi"

text \<open>Division of an array by a scalar. Each element is divided on its own, so an
  array with no element divides nothing. With a zero divisor and at least one
  element numpy warns, stores NaN or an infinity and goes on: the code raises
  nothing there and still returns an array. \<open>Inl InvalidValue\<close> marks that run (it is
  not an exception of the program), because the value that the later cast to
  \<open>uint8\<close> gives NaN is unspecified.\<close>

definition nd_divide :: "real ndarray \<Rightarrow> real \<Rightarrow> error + real ndarray" where
  "nd_divide a d =
     (if elems a = [] then Inr a
      else if d = 0 then Inl InvalidValue
      else Inr (nd_map (\<lambda>x. x / d) a))"

text \<open>\<open>np.round\<close> rounds to the nearest integer and a tie to the even neighbour.\<close>

definition np_round :: "real \<Rightarrow> int" where
  "np_round x =
     (let f = \<lfloor>x\<rfloor>; d = x - of_int f
      in if d < 1 / 2 then f
         else if 1 / 2 < d then f + 1
         else if even f then f else f + 1)"

definition np_uint8 :: "int \<Rightarrow> uint8" where
  "np_uint8 i = word_of_int i"

text \<open>\<open>np.percentile(a, q)\<close> with the default method, linear interpolation: the
  flattened array in ascending order is read at the fractional index
  \<open>(n - 1) * q / 100\<close>, between its two neighbours.\<close>

definition percentile :: "real list \<Rightarrow> real \<Rightarrow> error + real" where
  "percentile xs q =
     (if xs = [] then Inl InvalidValue
      else
        let s = sort xs;
            n = length s;
            v = real (n - 1) * (q / 100);
            lo = nat \<lfloor>v\<rfloor>;
            hi = min (lo + 1) (n - 1);
            g = v - real lo
        in Inr (s ! lo + g * (s ! hi - s ! lo)))"

subsection \<open>Sample extractor\<close>

definition get_pixel_array :: "dataset \<Rightarrow> error + real ndarray" where
  "get_pixel_array ds =
     (case pixel_array ds of
        None \<Rightarrow> Inl AttributeError
      | Some raw \<Rightarrow>
          (let arr = nd_map real_of_int raw
           in (case py_float (getattr (RescaleIntercept ds) (Scalar 0)) of
                 Inl e \<Rightarrow> Inl e
               | Inr intercept \<Rightarrow>
                   (case py_float (getattr (RescaleSlope ds) (Scalar 1)) of
                      Inl e \<Rightarrow> Inl e
                    | Inr slope \<Rightarrow> Inr (nd_map (\<lambda>x. x * slope + intercept) arr)))))"

subsection \<open>Window resolver\<close>

text \<open>The conversion that \<open>default_window\<close> applies to each of the two attributes:
  \<open>float(v[0])\<close> for a MultiValue, \<open>float(v)\<close> otherwise.\<close>

fun window_value :: "attr \<Rightarrow> error + real" where
  "window_value (MultiValue vs) = (case vs of [] \<Rightarrow> Inl IndexError | v # _ \<Rightarrow> Inr v)"
| "window_value (Scalar v) = Inr v"

definition default_window :: "dataset \<Rightarrow> error + real \<times> real" where
  "default_window ds =
     (case (WindowCenter ds, WindowWidth ds) of
        (Some wc, Some ww) \<Rightarrow>
          (case window_value wc of
             Inl e \<Rightarrow> Inl e
           | Inr c \<Rightarrow>
               (case window_value ww of
                  Inl e \<Rightarrow> Inl e
                | Inr w \<Rightarrow> Inr (c, w)))
      | _ \<Rightarrow>
          (case get_pixel_array ds of
             Inl e \<Rightarrow> Inl e
           | Inr arr \<Rightarrow>
               (case percentile (elems arr) 1 of
                  Inl e \<Rightarrow> Inl e
                | Inr p1 \<Rightarrow>
                    (case percentile (elems arr) 99 of
                       Inl e \<Rightarrow> Inl e
                     | Inr p99 \<Rightarrow>
                         let center = (p99 + p1) / 2;
                             width = (if 1 < p99 - p1 then p99 - p1 else 1)
                         in Inr (center, width)))))"

subsection \<open>Windowing engine\<close>

definition apply_window :: "real ndarray \<Rightarrow> real \<Rightarrow> real \<Rightarrow> error + uint8 ndarray" where
  "apply_window img center width =
     (let lower = center - width / 2;
          upper = center + width / 2;
          img_w = nd_map (\<lambda>x. np_clip x lower upper) img
      in (case nd_divide (nd_map (\<lambda>x. x - lower) img_w) (upper - lower) of
            Inl e \<Rightarrow> Inl e
          | Inr img_norm \<Rightarrow> Inr (nd_map (\<lambda>x. np_uint8 (np_round (x * 255))) img_norm)))"

subsection \<open>The window and the inversion applied by \<open>main\<close>\<close>

text \<open>Lines 354 to 357 of the source: the raster that \<open>main\<close> hands to the codec.
  \<open>255 - img_8\<close> is computed in \<open>uint8\<close>.\<close>

definition main_raster :: "real ndarray \<Rightarrow> real \<Rightarrow> real \<Rightarrow> bool \<Rightarrow> error + uint8 ndarray" where
  "main_raster arr wc_slider ww_slider invert =
     (case apply_window arr wc_slider ww_slider of
        Inl e \<Rightarrow> Inl e
      | Inr img_8 \<Rightarrow> Inr (if invert then nd_map (\<lambda>p. 255 - p) img_8 else img_8))"

subsection \<open>Raster codec\<close>

datatype mode = L | LA | RGB | RGBA

record image =
  im_mode :: mode
  im_size :: "nat \<times> nat"
  im_data :: "uint8 list"

text \<open>\<open>np.squeeze\<close> drops the axes of length one.\<close>

definition np_squeeze :: "'a ndarray \<Rightarrow> 'a ndarray" where
  "np_squeeze a = \<lparr>shape = filter (\<lambda>d. d \<noteq> 1) (shape a), elems = elems a\<rparr>"

text \<open>Pillow's table from the trailing axes of a \<open>uint8\<close> array to an image mode
  (the entries of \<open>_fromarray_typemap\<close> for the type string \<open>|u1\<close>).\<close>

fun typemap :: "nat list \<Rightarrow> mode option" where
  "typemap [] = Some L"
| "typemap [c] =
     (if c = 2 then Some LA else if c = 3 then Some RGB else if c = 4 then Some RGBA else None)"
| "typemap (c # d # ds) = None"

text \<open>\<open>Image.fromarray(obj, mode)\<close> on a \<open>uint8\<close> array: the mode is the one given
  or the one of the table (a shape outside the table is a TypeError); an array with
  more axes than the mode allows is a ValueError; the size is read from the first
  two axes.\<close>

definition fromarray :: "uint8 ndarray \<Rightarrow> mode option \<Rightarrow> error + image" where
  "fromarray obj m =
     (case (case m of
              Some md \<Rightarrow> Some md
            | None \<Rightarrow> typemap (drop 2 (shape obj))) of
        None \<Rightarrow> Inl TypeError
      | Some md \<Rightarrow>
          (let ndmax = (if md = L then 2 else if md = RGB then 3 else 4)
           in if ndmax < ndim obj then Inl ValueError
              else (case shape obj of
                      [] \<Rightarrow> Inl IndexError
                    | [h] \<Rightarrow> Inr \<lparr>im_mode = md, im_size = (1, h), im_data = elems obj\<rparr>
                    | h # w # _ \<Rightarrow> Inr \<lparr>im_mode = md, im_size = (w, h), im_data = elems obj\<rparr>)))"

definition to_pil :: "uint8 ndarray \<Rightarrow> error + image" where
  "to_pil img_array =
     (if ndim img_array = 2 then fromarray img_array (Some L)
      else if ndim img_array = 3 \<and> shape img_array ! 2 = 3 then fromarray img_array None
      else
        (let arr = np_squeeze img_array;
             arr = nd_map (\<lambda>p. np_uint8 (min (max (uint p) 0) 255)) arr
         in fromarray arr None))"

text \<open>The number of channels of an image mode.\<close>

fun bands :: "mode \<Rightarrow> nat" where
  "bands L = 1"
| "bands LA = 2"
| "bands RGB = 3"
| "bands RGBA = 4"

text \<open>Lines 354 to 366 of the source: the image that \<open>main\<close> shows and exports.
  \<open>ImageOps.equalize\<close> belongs to Pillow and is a parameter here; an exception it
  raises is swallowed and the image stays as it was.\<close>

definition main_image ::
  "(image \<Rightarrow> error + image) \<Rightarrow> real ndarray \<Rightarrow> real \<Rightarrow> real \<Rightarrow> bool \<Rightarrow> bool \<Rightarrow> error + image" where
  "main_image equalize arr wc_slider ww_slider invert clahe_opt =
     (case main_raster arr wc_slider ww_slider invert of
        Inl e \<Rightarrow> Inl e
      | Inr img_8 \<Rightarrow>
          (case to_pil img_8 of
             Inl e \<Rightarrow> Inl e
           | Inr pil_img \<Rightarrow>
               if clahe_opt
               then (case equalize pil_img of Inl e \<Rightarrow> Inr pil_img | Inr eq_img \<Rightarrow> Inr eq_img)
               else Inr pil_img))"

subsection \<open>Statistics\<close>

text \<open>\<open>np.min\<close> and \<open>np.max\<close> raise a ValueError on an array with no element.\<close>

fun np_min :: "real list \<Rightarrow> error + real" where
  "np_min [] = Inl ValueError"
| "np_min (x # xs) = Inr (fold min xs x)"

fun np_max :: "real list \<Rightarrow> error + real" where
  "np_max [] = Inl ValueError"
| "np_max (x # xs) = Inr (fold max xs x)"

text \<open>\<open>np.mean\<close>, and \<open>np.std\<close> with its default \<open>ddof = 0\<close>: the square root of the
  mean of the squared deviations from the mean. On an array with no element both
  are NaN.\<close>

definition np_mean :: "real list \<Rightarrow> error + real" where
  "np_mean xs = (if xs = [] then Inl InvalidValue else Inr (sum_list xs / real (length xs)))"

definition np_std :: "real list \<Rightarrow> error + real" where
  "np_std xs =
     (case np_mean xs of
        Inl e \<Rightarrow> Inl e
      | Inr m \<Rightarrow> Inr (sqrt (sum_list (map (\<lambda>x. \<bar>x - m\<bar> ^ 2) xs) / real (length xs))))"

record statistics =
  st_p10 :: real
  st_p50 :: real
  st_p90 :: real
  st_mn :: real
  st_mx :: real
  st_mean :: real
  st_std :: real

text \<open>Lines 394 to 398 of the source, in the order in which \<open>main\<close> evaluates them.\<close>

definition quick_statistics :: "real ndarray \<Rightarrow> error + statistics" where
  "quick_statistics arr =
     (let arr_flat = elems arr
      in (case percentile arr_flat 10 of Inl e \<Rightarrow> Inl e | Inr p10 \<Rightarrow>
         (case percentile arr_flat 50 of Inl e \<Rightarrow> Inl e | Inr p50 \<Rightarrow>
         (case percentile arr_flat 90 of Inl e \<Rightarrow> Inl e | Inr p90 \<Rightarrow>
         (case np_min arr_flat of Inl e \<Rightarrow> Inl e | Inr mn \<Rightarrow>
         (case np_max arr_flat of Inl e \<Rightarrow> Inl e | Inr mx \<Rightarrow>
         (case np_mean arr_flat of Inl e \<Rightarrow> Inl e | Inr mean \<Rightarrow>
         (case np_std arr_flat of Inl e \<Rightarrow> Inl e | Inr std \<Rightarrow>
            Inr \<lparr>st_p10 = p10, st_p50 = p50, st_p90 = p90, st_mn = mn, st_mx = mx,
                 st_mean = mean, st_std = std\<rparr>))))))))"

subsection \<open>Example inputs\<close>

text \<open>A 10 by 10 dataset whose stored samples are the integers 0 to 99, with no
  rescale and no window attribute.\<close>

definition ramp_dataset :: dataset where
  "ramp_dataset =
     \<lparr>pixel_array = Some \<lparr>shape = [10, 10], elems = [0..99]\<rparr>,
      RescaleIntercept = None, RescaleSlope = None,
      WindowCenter = None, WindowWidth = None\<rparr>"

text \<open>Explicit window attributes with a width below one.\<close>

definition narrow_dataset :: dataset where
  "narrow_dataset =
     \<lparr>pixel_array = Some \<lparr>shape = [2, 2], elems = [0, 10, 20, 30]\<rparr>,
      RescaleIntercept = None, RescaleSlope = None,
      WindowCenter = Some (Scalar 40), WindowWidth = Some (Scalar (1 / 2))\<rparr>"

text \<open>A scalar rescale, and a rescale slope that holds two values.\<close>

definition rescaled_dataset :: dataset where
  "rescaled_dataset =
     \<lparr>pixel_array = Some \<lparr>shape = [1, 3], elems = [0, 100, 1000]\<rparr>,
      RescaleIntercept = Some (Scalar (- 1024)), RescaleSlope = Some (Scalar 2),
      WindowCenter = None, WindowWidth = None\<rparr>"

definition multi_slope_dataset :: dataset where
  "multi_slope_dataset =
     \<lparr>pixel_array = Some \<lparr>shape = [1, 2], elems = [1, 2]\<rparr>,
      RescaleIntercept = None, RescaleSlope = Some (MultiValue [2, 3]),
      WindowCenter = None, WindowWidth = None\<rparr>"

text \<open>A flat image, without window attributes and with an explicit width of zero.\<close>

definition flat_dataset :: dataset where
  "flat_dataset =
     \<lparr>pixel_array = Some \<lparr>shape = [2, 2], elems = [5, 5, 5, 5]\<rparr>,
      RescaleIntercept = None, RescaleSlope = None,
      WindowCenter = None, WindowWidth = None\<rparr>"

definition flat_zero_width_dataset :: dataset where
  "flat_zero_width_dataset =
     \<lparr>pixel_array = Some \<lparr>shape = [2, 2], elems = [5, 5, 5, 5]\<rparr>,
      RescaleIntercept = None, RescaleSlope = None,
      WindowCenter = Some (Scalar 5), WindowWidth = Some (Scalar 0)\<rparr>"

text \<open>The ramp with a window width and no window centre.\<close>

definition width_only_dataset :: dataset where
  "width_only_dataset =
     \<lparr>pixel_array = Some \<lparr>shape = [10, 10], elems = [0..99]\<rparr>,
      RescaleIntercept = None, RescaleSlope = None,
      WindowCenter = None, WindowWidth = Some (Scalar 400)\<rparr>"

section \<open>Properties\<close>

subsection \<open>Auxiliary facts\<close>

lemma sorted_ramp: "sorted (map real_of_int [i..j])"
  by (simp add: sorted_map sorted_wrt_mono_rel [OF _ sorted_upto])

lemma percentile_defined: "xs \<noteq> [] \<Longrightarrow> \<exists>p. percentile xs q = Inr p"
  by (simp add: percentile_def Let_def)

lemma percentile_sorted:
  "xs \<noteq> [] \<Longrightarrow> sorted xs \<Longrightarrow>
   percentile xs q =
     Inr (xs ! nat \<lfloor>real (length xs - 1) * (q / 100)\<rfloor>
          + (real (length xs - 1) * (q / 100) - real (nat \<lfloor>real (length xs - 1) * (q / 100)\<rfloor>))
            * (xs ! min (nat \<lfloor>real (length xs - 1) * (q / 100)\<rfloor> + 1) (length xs - 1)
               - xs ! nat \<lfloor>real (length xs - 1) * (q / 100)\<rfloor>))"
  by (simp add: percentile_def Let_def sorted_sort_id)

lemma gpa_ramp:
  "get_pixel_array ramp_dataset = Inr \<lparr>shape = [10, 10], elems = map real_of_int [0..99]\<rparr>"
  by (simp add: get_pixel_array_def ramp_dataset_def nd_map_def)

lemma p1_ramp: "percentile (map real_of_int [0..99]) 1 = Inr (99 / 100)"
  by (simp add: percentile_sorted sorted_ramp)

lemma p99_ramp: "percentile (map real_of_int [0..99]) 99 = Inr (9801 / 100)"
  by (simp add: percentile_sorted sorted_ramp)

lemma apply_window_nonzero:
  "width \<noteq> 0 \<Longrightarrow>
   apply_window img center width =
     Inr (nd_map (\<lambda>x. np_uint8 (np_round
            ((min (max x (center - width / 2)) (center + width / 2) - (center - width / 2))
               / ((center + width / 2) - (center - width / 2)) * 255))) img)"
  by (simp add: apply_window_def nd_divide_def nd_map_def np_clip_def Let_def)

lemma dw_ramp: "default_window ramp_dataset = Inr (99 / 2, 4851 / 50)"
proof -
  have "WindowCenter ramp_dataset = None" "WindowWidth ramp_dataset = None"
    by (simp_all add: ramp_dataset_def)
  then show ?thesis
    by (simp add: default_window_def gpa_ramp p1_ramp p99_ramp)
qed

lemma percentile_constant:
  assumes ne: "xs \<noteq> []" and all: "\<forall>x\<in>set xs. x = v" and q: "0 \<le> q" "q \<le> 100"
  shows "percentile xs q = Inr v"
proof -
  let ?s = "sort xs"
  let ?n = "length xs"
  let ?v = "real (?n - 1) * (q / 100)"
  let ?lo = "nat \<lfloor>?v\<rfloor>"
  let ?hi = "min (?lo + 1) (?n - 1)"
  from ne have n: "0 < ?n" by simp
  have ls: "length ?s = ?n" by simp
  have "real (?n - 1) * (q / 100) \<le> real (?n - 1) * 1"
    by (rule mult_left_mono) (use q in simp_all)
  then have "?v \<le> real (?n - 1)" by simp
  then have "\<lfloor>?v\<rfloor> \<le> int (?n - 1)" by (simp add: floor_le_iff)
  then have "?lo \<le> ?n - 1" by simp
  with n have lo: "?lo < ?n" by linarith
  from n have hi: "?hi < ?n" by linarith
  from lo ls have "?s ! ?lo \<in> set ?s" by (simp only: nth_mem)
  with all have a: "?s ! ?lo = v" by simp
  from hi ls have "?s ! ?hi \<in> set ?s" by (simp only: nth_mem)
  with all have b: "?s ! ?hi = v" by simp
  have "percentile xs q = Inr (?s ! ?lo + (?v - real ?lo) * (?s ! ?hi - ?s ! ?lo))"
    using ne by (simp add: percentile_def Let_def)
  also have "\<dots> = Inr v" by (simp only: a b) simp
  finally show ?thesis .
qed

lemma py_float_error: "py_float a = Inl e \<Longrightarrow> e = TypeError"
  by (cases a) simp_all

lemma get_pixel_array_window_irrelevant:
  "get_pixel_array (ds\<lparr>WindowCenter := a, WindowWidth := b\<rparr>) = get_pixel_array ds"
  by (simp add: get_pixel_array_def Let_def cong: option.case_cong sum.case_cong)

lemma gpa_flat: "get_pixel_array flat_dataset = Inr \<lparr>shape = [2, 2], elems = [5, 5, 5, 5]\<rparr>"
  by (simp add: get_pixel_array_def flat_dataset_def nd_map_def)

lemma uint8_clip_id:
  "np_uint8 (min (max (uint p) 0) 255) = p" "np_uint8 (min (uint p) 255) = p" for p :: uint8
proof -
  have "uint p < 256" using uint_bounded [of p] by simp
  then have "min (max (uint p) 0) 255 = uint p" "min (uint p) 255 = uint p" by simp_all
  then show "np_uint8 (min (max (uint p) 0) 255) = p" "np_uint8 (min (uint p) 255) = p"
    by (simp_all add: np_uint8_def)
qed

lemma fromarray_nd_map:
  "fromarray (nd_map f a) m = map_sum id (\<lambda>im. im\<lparr>im_data := map f (im_data im)\<rparr>) (fromarray a m)"
  by (simp add: fromarray_def nd_map_def ndim_def Let_def split: option.splits list.splits)

lemma to_pil_nd_map:
  "to_pil (nd_map f a) = map_sum id (\<lambda>im. im\<lparr>im_data := map f (im_data im)\<rparr>) (to_pil a)"
proof -
  have sq: "nd_map (\<lambda>p. np_uint8 (min (max (uint p) 0) 255)) (np_squeeze (nd_map f a))
        = nd_map f (nd_map (\<lambda>p. np_uint8 (min (max (uint p) 0) 255)) (np_squeeze a))"
    by (simp add: nd_map_def np_squeeze_def uint8_clip_id)
  have sh: "shape (nd_map f a) = shape a" by (simp add: nd_map_def)
  show ?thesis
    unfolding to_pil_def Let_def ndim_def sh sq
    by (simp add: fromarray_nd_map)
qed

lemma fold_min_Min: "fold min xs x = Min (set (x # xs))" for x :: real
  by (rule Min.set_eq_fold [symmetric])

lemma fold_max_Max: "fold max xs x = Max (set (x # xs))" for x :: real
  by (rule Max.set_eq_fold [symmetric])

lemma np_min_Min: "xs \<noteq> [] \<Longrightarrow> np_min xs = Inr (Min (set xs))"
  by (cases xs) (simp_all only: np_min.simps fold_min_Min, simp)

lemma np_max_Max: "xs \<noteq> [] \<Longrightarrow> np_max xs = Inr (Max (set xs))"
  by (cases xs) (simp_all only: np_max.simps fold_max_Max, simp)

subsection \<open>Percentile fallback of the window resolver\<close>

text \<open>
  Claim C1. For a dataset with neither window attribute, whose calibrated samples
  exist and are not empty, \<open>default_window\<close> returns the centre \<open>(p99 + p1) / 2\<close> and
  the width \<open>max 1 (p99 - p1)\<close>, where \<open>p1\<close> and \<open>p99\<close> are the linear-interpolation
  percentiles 1 and 99 of the flattened samples. For the samples 0 to 99 the
  percentiles are 0.99 and 98.01, the window is centre 49.5 and width 97.02, and
  \<open>apply_window\<close> with exactly these parameters sends the sample 0 (index 0) to 0
  and the sample 99 (index 99) to 255.
\<close>

theorem default_window_percentile_fallback:
  "(WindowCenter ds = None \<and> WindowWidth ds = None \<and> get_pixel_array ds = Inr arr \<and> elems arr \<noteq> []
      \<longrightarrow> (\<exists>p1 p99. percentile (elems arr) 1 = Inr p1 \<and> percentile (elems arr) 99 = Inr p99
             \<and> default_window ds = Inr ((p99 + p1) / 2, max 1 (p99 - p1))))
   \<and> get_pixel_array ramp_dataset = Inr \<lparr>shape = [10, 10], elems = map real_of_int [0..99]\<rparr>
   \<and> percentile (map real_of_int [0..99]) 1 = Inr (99 / 100)
   \<and> percentile (map real_of_int [0..99]) 99 = Inr (9801 / 100)
   \<and> default_window ramp_dataset = Inr (99 / 2, 4851 / 50)
   \<and> (\<exists>r. apply_window \<lparr>shape = [10, 10], elems = map real_of_int [0..99]\<rparr> (99 / 2) (4851 / 50) = Inr r
          \<and> shape r = [10, 10] \<and> length (elems r) = 100 \<and> elems r ! 0 = 0 \<and> elems r ! 99 = 255)"
proof (intro conjI impI)
  assume h: "WindowCenter ds = None \<and> WindowWidth ds = None \<and> get_pixel_array ds = Inr arr \<and> elems arr \<noteq> []"
  then obtain p1 p99 where p: "percentile (elems arr) 1 = Inr p1" "percentile (elems arr) 99 = Inr p99"
    using percentile_defined [of "elems arr"] by blast
  with h have "default_window ds = Inr ((p99 + p1) / 2, max 1 (p99 - p1))"
    by (simp add: default_window_def max_def Let_def)
  with p show "\<exists>p1 p99. percentile (elems arr) 1 = Inr p1 \<and> percentile (elems arr) 99 = Inr p99
             \<and> default_window ds = Inr ((p99 + p1) / 2, max 1 (p99 - p1))"
    by blast
next
  show "get_pixel_array ramp_dataset = Inr \<lparr>shape = [10, 10], elems = map real_of_int [0..99]\<rparr>"
    by (rule gpa_ramp)
next
  show "percentile (map real_of_int [0..99]) 1 = Inr (99 / 100)" by (rule p1_ramp)
next
  show "percentile (map real_of_int [0..99]) 99 = Inr (9801 / 100)" by (rule p99_ramp)
next
  show "default_window ramp_dataset = Inr (99 / 2, 4851 / 50)" by (rule dw_ramp)
next
  have "apply_window \<lparr>shape = [10, 10], elems = map real_of_int [0..99]\<rparr> (99 / 2) (4851 / 50)
      = Inr (nd_map (\<lambda>x. np_uint8 (np_round
            ((min (max x (99 / 2 - 4851 / 50 / 2)) (99 / 2 + 4851 / 50 / 2) - (99 / 2 - 4851 / 50 / 2))
               / ((99 / 2 + 4851 / 50 / 2) - (99 / 2 - 4851 / 50 / 2)) * 255)))
           \<lparr>shape = [10, 10], elems = map real_of_int [0..99]\<rparr>)"
    by (rule apply_window_nonzero) simp
  then show "\<exists>r. apply_window \<lparr>shape = [10, 10], elems = map real_of_int [0..99]\<rparr> (99 / 2) (4851 / 50) = Inr r
          \<and> shape r = [10, 10] \<and> length (elems r) = 100 \<and> elems r ! 0 = 0 \<and> elems r ! 99 = 255"
    by (simp add: nd_map_def np_round_def np_uint8_def)
qed

theorem default_window_percentile_fallback_witness:
  "WindowCenter ramp_dataset = None \<and> WindowWidth ramp_dataset = None
   \<and> get_pixel_array ramp_dataset = Inr \<lparr>shape = [10, 10], elems = map real_of_int [0..99]\<rparr>
   \<and> elems \<lparr>shape = [10, 10], elems = map real_of_int [0..99]\<rparr> \<noteq> []
   \<and> default_window ramp_dataset = Inr ((9801 / 100 + 99 / 100) / 2, max 1 (9801 / 100 - 99 / 100))"
proof -
  have h: "WindowCenter ramp_dataset = None \<and> WindowWidth ramp_dataset = None
     \<and> get_pixel_array ramp_dataset = Inr \<lparr>shape = [10, 10], elems = map real_of_int [0..99]\<rparr>
     \<and> elems \<lparr>shape = [10, 10], elems = map real_of_int [0..99]\<rparr> \<noteq> []"
    by (simp add: gpa_ramp) (simp add: ramp_dataset_def)
  from default_window_percentile_fallback
    [of ramp_dataset "\<lparr>shape = [10, 10], elems = map real_of_int [0..99]\<rparr>"] h
  obtain p1 p99 where
    "percentile (elems \<lparr>shape = [10, 10], elems = map real_of_int [0..99]\<rparr>) 1 = Inr p1"
    "percentile (elems \<lparr>shape = [10, 10], elems = map real_of_int [0..99]\<rparr>) 99 = Inr p99"
    "default_window ramp_dataset = Inr ((p99 + p1) / 2, max 1 (p99 - p1))"
    by blast
  then have "default_window ramp_dataset = Inr ((9801 / 100 + 99 / 100) / 2, max 1 (9801 / 100 - 99 / 100))"
    by (simp add: p1_ramp p99_ramp)
  with h show ?thesis by blast
qed

subsection \<open>The windowing formula\<close>

text \<open>
  Claim C2. With \<open>lower = center - width / 2\<close> and \<open>upper = center + width / 2\<close>,
  \<open>apply_window\<close> clips each sample to the interval from \<open>lower\<close> to \<open>upper\<close>, divides
  the distance to \<open>lower\<close> by \<open>upper - lower\<close>, multiplies by 255, rounds and stores the
  result as \<open>uint8\<close> (stated for a width other than zero, where the quotient exists).
  For centre 40 and width 80 the samples 40, 0 and 80 become 128, 0 and 255.
\<close>

theorem apply_window_formula:
  "(width \<noteq> 0 \<longrightarrow>
      apply_window img center width =
        Inr \<lparr>shape = shape img,
             elems = map (\<lambda>x. np_uint8 (np_round
                (((min (max x (center - width / 2)) (center + width / 2)) - (center - width / 2))
                   / ((center + width / 2) - (center - width / 2)) * 255))) (elems img)\<rparr>)
   \<and> apply_window \<lparr>shape = [1, 3], elems = [40, 0, 80]\<rparr> 40 80
       = Inr \<lparr>shape = [1, 3], elems = [128, 0, 255]\<rparr>"
  by (simp add: apply_window_def nd_divide_def nd_map_def np_clip_def np_round_def
      np_uint8_def Let_def)

theorem apply_window_formula_witness:
  "(2 :: real) \<noteq> 0
   \<and> apply_window \<lparr>shape = [3], elems = [9, 10, 11]\<rparr> 10 2
       = Inr \<lparr>shape = [3], elems = [0, 128, 255]\<rparr>"
  using apply_window_formula [of 2 "\<lparr>shape = [3], elems = [9, 10, 11]\<rparr>" 10]
  by (simp add: np_round_def np_uint8_def)

subsection \<open>An image with no sample\<close>

text \<open>
  Claim C4, as the code has it. \<open>apply_window\<close> on an array with no element raises
  nothing: for every centre and width it returns the array with no element, of the
  same shape. The source defines no EmptyImageError and tests no size.
\<close>

theorem apply_window_empty:
  "elems img = [] \<Longrightarrow> apply_window img center width = Inr \<lparr>shape = shape img, elems = []\<rparr>"
  by (simp add: apply_window_def nd_divide_def nd_map_def Let_def)

theorem apply_window_empty_witness:
  "elems \<lparr>shape = [0], elems = [] :: real list\<rparr> = []
   \<and> apply_window \<lparr>shape = [0], elems = []\<rparr> 0 0 = Inr \<lparr>shape = [0], elems = []\<rparr>"
  using apply_window_empty [of "\<lparr>shape = [0], elems = []\<rparr>" 0 0] by simp

text \<open>The claim as stated fails on an empty 0 by 0 image with the window of centre 40
  and width 80: the call returns a raster and no error.\<close>

theorem apply_window_empty_counterexample:
  "apply_window \<lparr>shape = [0, 0], elems = []\<rparr> 40 80 = Inr \<lparr>shape = [0, 0], elems = []\<rparr>"
  by (simp add: apply_window_def nd_divide_def nd_map_def Let_def)

subsection \<open>The width floor\<close>

text \<open>
  Claim C3, as the code has it. When \<open>default_window\<close> returns a window, then on
  the explicit path (both attributes present) the centre and the width are the
  first or only values of WindowCenter and WindowWidth, unchanged and unclamped,
  and on the percentile path the width is at least 1.
\<close>

theorem default_window_width_floor:
  "default_window ds = Inr (c, w) \<Longrightarrow>
     (case (WindowCenter ds, WindowWidth ds) of
        (Some wc, Some ww) \<Rightarrow> window_value wc = Inr c \<and> window_value ww = Inr w
      | _ \<Rightarrow> 1 \<le> w)"
  by (auto simp: default_window_def Let_def split: option.splits sum.splits if_splits)

theorem default_window_width_floor_witness:
  "default_window ramp_dataset = Inr (99 / 2, 4851 / 50) \<and> (1 :: real) \<le> 4851 / 50
   \<and> default_window narrow_dataset = Inr (40, 1 / 2)
   \<and> window_value (Scalar (1 / 2)) = Inr (1 / 2)"
proof -
  have b: "default_window narrow_dataset = Inr (40, 1 / 2)"
    by (simp add: default_window_def narrow_dataset_def)
  from default_window_width_floor [OF dw_ramp] have "(1 :: real) \<le> 4851 / 50"
    by (simp add: ramp_dataset_def)
  moreover from default_window_width_floor [OF b] have "window_value (Scalar (1 / 2)) = Inr (1 / 2)"
    by (simp add: narrow_dataset_def)
  ultimately show ?thesis using dw_ramp b by simp
qed

text \<open>The claim as stated fails on a dataset whose WindowWidth is 0.5: the resolver
  returns the width 0.5, below the floor.\<close>

theorem default_window_width_floor_counterexample:
  "(case default_window narrow_dataset of
      Inl e \<Rightarrow> False
    | Inr (c, w) \<Rightarrow> c = 40 \<and> w = 1 / 2 \<and> w < 1)"
  by (simp add: default_window_def narrow_dataset_def)

subsection \<open>Rescale slope and intercept\<close>

text \<open>
  Claim C5, as the code has it. When RescaleSlope and RescaleIntercept are each
  absent or a single number, \<open>get_pixel_array\<close> converts every stored sample to a
  real number and returns \<open>raw * slope + intercept\<close>, with slope 1 and intercept 0
  for an absent attribute. When either attribute is multi-valued the conversion
  \<open>float\<close> fails with a TypeError: no first value is taken.
\<close>

theorem get_pixel_array_rescale:
  "(pixel_array ds = Some raw \<and> RescaleSlope ds = map_option Scalar sl
      \<and> RescaleIntercept ds = map_option Scalar ic \<longrightarrow>
      get_pixel_array ds =
        Inr \<lparr>shape = shape raw,
             elems = map (\<lambda>r. real_of_int r * (case sl of None \<Rightarrow> 1 | Some s \<Rightarrow> s)
                                  + (case ic of None \<Rightarrow> 0 | Some i \<Rightarrow> i)) (elems raw)\<rparr>)
   \<and> (pixel_array ds = Some raw
      \<and> (RescaleSlope ds = Some (MultiValue vs) \<or> RescaleIntercept ds = Some (MultiValue vs)) \<longrightarrow>
      get_pixel_array ds = Inl TypeError)"
  by (auto simp: get_pixel_array_def nd_map_def Let_def dest: py_float_error
      split: option.splits sum.splits attr.splits)

theorem get_pixel_array_rescale_witness:
  "get_pixel_array rescaled_dataset = Inr \<lparr>shape = [1, 3], elems = [- 1024, - 824, 976]\<rparr>
   \<and> get_pixel_array ramp_dataset = Inr \<lparr>shape = [10, 10], elems = map real_of_int [0..99]\<rparr>
   \<and> get_pixel_array (rescaled_dataset\<lparr>RescaleIntercept := Some (MultiValue [0, 1])\<rparr>) = Inl TypeError"
proof -
  have "get_pixel_array rescaled_dataset = Inr \<lparr>shape = [1, 3], elems = [- 1024, - 824, 976]\<rparr>"
    using get_pixel_array_rescale
      [of rescaled_dataset "\<lparr>shape = [1, 3], elems = [0, 100, 1000]\<rparr>" "Some 2" "Some (- 1024)"]
    by (simp add: rescaled_dataset_def)
  moreover have "get_pixel_array ramp_dataset = Inr \<lparr>shape = [10, 10], elems = map real_of_int [0..99]\<rparr>"
    using get_pixel_array_rescale
      [of ramp_dataset "\<lparr>shape = [10, 10], elems = [0..99]\<rparr>" None None]
    by (simp add: ramp_dataset_def)
  moreover have "get_pixel_array (rescaled_dataset\<lparr>RescaleIntercept := Some (MultiValue [0, 1])\<rparr>)
      = Inl TypeError"
    using get_pixel_array_rescale
      [of "rescaled_dataset\<lparr>RescaleIntercept := Some (MultiValue [0, 1])\<rparr>"
          "\<lparr>shape = [1, 3], elems = [0, 100, 1000]\<rparr>" _ _ "[0, 1]"]
    by (simp add: rescaled_dataset_def)
  ultimately show ?thesis by simp
qed

text \<open>The claim as stated fails on a dataset whose RescaleSlope holds the two values
  2 and 3: the extractor raises and returns no samples.\<close>

theorem get_pixel_array_rescale_counterexample:
  "get_pixel_array multi_slope_dataset = Inl TypeError"
  by (simp add: get_pixel_array_def multi_slope_dataset_def)

subsection \<open>Inversion\<close>

text \<open>
  Claim C6. For every sample array, centre and width, the raster that \<open>main\<close>
  computes with \<open>invert\<close> set is the raster computed without it with every element
  \<open>p\<close> replaced by \<open>255 - p\<close> (and both runs fail alike when the window fails); with
  equalisation off the same holds for the pixels of the image built from the
  raster. The subtraction is done on the rounded \<open>uint8\<close> value and never wraps.
\<close>

theorem invert_after_window:
  "main_raster arr center width True
     = map_sum id (nd_map (\<lambda>p. 255 - p)) (main_raster arr center width False)
   \<and> main_image equalize arr center width True False
     = map_sum id (\<lambda>im. im\<lparr>im_data := map (\<lambda>p. 255 - p) (im_data im)\<rparr>)
         (main_image equalize arr center width False False)
   \<and> unat (255 - p :: uint8) = 255 - unat p"
proof (intro conjI)
  show "main_raster arr center width True
     = map_sum id (nd_map (\<lambda>p. 255 - p)) (main_raster arr center width False)"
    by (simp add: main_raster_def split: sum.splits)
  show "main_image equalize arr center width True False
     = map_sum id (\<lambda>im. im\<lparr>im_data := map (\<lambda>p. 255 - p) (im_data im)\<rparr>)
         (main_image equalize arr center width False False)"
    by (simp add: main_image_def main_raster_def to_pil_nd_map split: sum.splits)
  have "unat p < 256" using unsigned_less [of p, where 'a = nat] by simp
  then have "unat p \<le> 255" by simp
  then show "unat (255 - p :: uint8) = 255 - unat p"
    by (simp add: unat_sub_if' word_le_nat_alt)
qed

subsection \<open>A flat image\<close>

text \<open>
  Claim C7, as the code has it. For a dataset that lacks WindowCenter or
  WindowWidth and whose samples exist, are not empty and all equal \<open>v\<close>, with
  \<open>v\<close> below \<open>2 ^ 52\<close> in absolute value, \<open>default_window\<close> returns the centre \<open>v\<close> and
  the width 1, and \<open>apply_window\<close> with these parameters has a divisor
  \<open>upper - lower\<close> other than zero, divides nowhere by zero and returns a raster of
  the shape of the samples. The bound keeps \<open>v - 1 / 2\<close> and \<open>v + 1 / 2\<close> apart in
  double precision; nothing is said of larger samples, of the raster values, or
  of a dataset with both attributes, whose width is not raised to 1.
\<close>

theorem flat_image_window:
  assumes "WindowCenter ds = None \<or> WindowWidth ds = None"
    and "get_pixel_array ds = Inr arr"
    and "elems arr \<noteq> []"
    and "\<forall>x\<in>set (elems arr). x = v"
    and "\<bar>v\<bar> < 2 ^ 52"
  shows "default_window ds = Inr (v, 1)
    \<and> (\<exists>r. apply_window arr v 1 = Inr r \<and> shape r = shape arr
            \<and> length (elems r) = length (elems arr))"
proof
  have p: "percentile (elems arr) 1 = Inr v" "percentile (elems arr) 99 = Inr v"
    using assms(3,4) by (simp_all add: percentile_constant)
  from assms(1,2) show "default_window ds = Inr (v, 1)"
    by (auto simp: default_window_def p split: option.splits)
  have "apply_window arr v 1
      = Inr (nd_map (\<lambda>x. np_uint8 (np_round
            ((min (max x (v - 1 / 2)) (v + 1 / 2) - (v - 1 / 2))
               / ((v + 1 / 2) - (v - 1 / 2)) * 255))) arr)"
    by (rule apply_window_nonzero) simp
  then show "\<exists>r. apply_window arr v 1 = Inr r \<and> shape r = shape arr
            \<and> length (elems r) = length (elems arr)"
    by (simp add: nd_map_def)
qed

theorem flat_image_window_witness:
  "(WindowCenter flat_dataset = None \<or> WindowWidth flat_dataset = None)
   \<and> get_pixel_array flat_dataset = Inr \<lparr>shape = [2, 2], elems = [5, 5, 5, 5]\<rparr>
   \<and> \<bar>5 :: real\<bar> < 2 ^ 52
   \<and> default_window flat_dataset = Inr (5, 1)
   \<and> (\<exists>r. apply_window \<lparr>shape = [2, 2], elems = [5, 5, 5, 5]\<rparr> 5 1 = Inr r
          \<and> shape r = [2, 2] \<and> length (elems r) = 4)"
proof -
  have a: "WindowCenter flat_dataset = None \<or> WindowWidth flat_dataset = None"
    by (simp add: flat_dataset_def)
  have b: "elems \<lparr>shape = [2, 2], elems = [5, 5, 5, 5 :: real]\<rparr> \<noteq> []" by simp
  have c: "\<forall>x\<in>set (elems \<lparr>shape = [2, 2], elems = [5, 5, 5, 5 :: real]\<rparr>). x = 5" by simp
  have d: "\<bar>5 :: real\<bar> < 2 ^ 52" by simp
  from flat_image_window [OF a gpa_flat b c d] a gpa_flat d show ?thesis by auto
qed

text \<open>The claim as stated fails on the flat image whose dataset carries WindowCenter 5
  and WindowWidth 0: the samples are the four values 5 and the resolved width is
  0, below 1.\<close>

theorem flat_image_window_counterexample:
  "get_pixel_array flat_zero_width_dataset = Inr \<lparr>shape = [2, 2], elems = [5, 5, 5, 5]\<rparr>
   \<and> (case default_window flat_zero_width_dataset of
         Inl e \<Rightarrow> False
       | Inr (c, w) \<Rightarrow> c = 5 \<and> w = 0 \<and> w < 1)"
  by (simp add: get_pixel_array_def default_window_def flat_zero_width_dataset_def nd_map_def)

subsection \<open>Rasters with another channel count\<close>

text \<open>
  Claim C8, as the code has it. For a raster of \<open>h\<close> rows, \<open>w\<close> columns (both above
  one) and \<open>c\<close> channels with \<open>c\<close> neither 1 nor 3, \<open>to_pil\<close> squeezes, clamps and
  hands the array to \<open>Image.fromarray\<close> without catching anything: two channels
  give an LA image, four channels an RGBA image with the same pixels, and every
  other channel count raises the TypeError of \<open>Image.fromarray\<close>.
\<close>

theorem to_pil_other_channels:
  assumes "1 < h" and "1 < w" and "c \<noteq> 1" and "c \<noteq> 3"
  shows "to_pil \<lparr>shape = [h, w, c], elems = es\<rparr> =
      (if c = 2 then Inr \<lparr>im_mode = LA, im_size = (w, h), im_data = es\<rparr>
       else if c = 4 then Inr \<lparr>im_mode = RGBA, im_size = (w, h), im_data = es\<rparr>
       else Inl TypeError)"
  using assms
  by (simp add: to_pil_def ndim_def np_squeeze_def nd_map_def fromarray_def uint8_clip_id Let_def)

theorem to_pil_other_channels_witness:
  "(1 :: nat) < 2 \<and> (4 :: nat) \<noteq> 1 \<and> (4 :: nat) \<noteq> 3
   \<and> to_pil \<lparr>shape = [2, 2, 4], elems = [1, 2, 3, 4, 5, 6, 7, 8, 9, 10, 11, 12, 13, 14, 15, 16]\<rparr>
     = Inr \<lparr>im_mode = RGBA, im_size = (2, 2),
            im_data = [1, 2, 3, 4, 5, 6, 7, 8, 9, 10, 11, 12, 13, 14, 15, 16]\<rparr>
   \<and> to_pil \<lparr>shape = [2, 2, 5], elems = replicate 20 0\<rparr> = Inl TypeError"
  using to_pil_other_channels [of 2 2 4 "[1, 2, 3, 4, 5, 6, 7, 8, 9, 10, 11, 12, 13, 14, 15, 16]"]
    to_pil_other_channels [of 2 2 5 "replicate 20 0"]
  by simp

text \<open>The claim as stated fails twice: a 2 by 2 raster with four channels comes back
  as a four-channel image, and one with five channels raises.\<close>

theorem to_pil_other_channels_counterexample:
  "to_pil \<lparr>shape = [2, 2, 4], elems = [0, 0, 0, 255, 0, 0, 0, 255, 0, 0, 0, 255, 0, 0, 0, 255]\<rparr>
     = Inr \<lparr>im_mode = RGBA, im_size = (2, 2),
            im_data = [0, 0, 0, 255, 0, 0, 0, 255, 0, 0, 0, 255, 0, 0, 0, 255]\<rparr>
   \<and> bands RGBA = 4
   \<and> to_pil \<lparr>shape = [2, 2, 5], elems = [0, 0, 0, 0, 0, 0, 0, 0, 0, 0, 0, 0, 0, 0, 0, 0, 0, 0, 0, 0]\<rparr>
     = Inl TypeError"
  by (simp add: to_pil_def ndim_def np_squeeze_def nd_map_def fromarray_def np_uint8_def Let_def)

subsection \<open>Statistics\<close>

text \<open>
  Claim C9. For every array of samples that is not empty, the statistics that
  \<open>main\<close> computes are: as minimum and maximum the least and the greatest sample;
  as mean the sum over the count \<open>N\<close>; as standard deviation the square root of
  the sum of squared deviations from the mean over \<open>N\<close> (not \<open>N - 1\<close>); and as
  p10, p50 and p90 the linear interpolation, in the flattened samples sorted in
  ascending order, at the fractional index \<open>(N - 1) * q / 100\<close> between its two
  neighbours. For the samples 1, 2, 3, 4, 5 they are minimum 1, maximum 5, mean
  3, standard deviation \<open>sqrt 2\<close> and median 3 (with p10 = 1.4 and p90 = 4.6).
\<close>

theorem quick_statistics_population:
  "(elems arr \<noteq> [] \<longrightarrow>
      (let xs = elems arr;
           s = sort xs;
           n = length xs;
           pct = (\<lambda>q. s ! nat \<lfloor>real (n - 1) * (q / 100)\<rfloor>
                    + (real (n - 1) * (q / 100) - real (nat \<lfloor>real (n - 1) * (q / 100)\<rfloor>))
                      * (s ! min (nat \<lfloor>real (n - 1) * (q / 100)\<rfloor> + 1) (n - 1)
                         - s ! nat \<lfloor>real (n - 1) * (q / 100)\<rfloor>));
           mean = sum_list xs / real n
       in quick_statistics arr =
            Inr \<lparr>st_p10 = pct 10, st_p50 = pct 50, st_p90 = pct 90,
                 st_mn = Min (set xs), st_mx = Max (set xs), st_mean = mean,
                 st_std = sqrt ((\<Sum>x\<leftarrow>xs. (x - mean)\<^sup>2) / real n)\<rparr>))
   \<and> quick_statistics \<lparr>shape = [5], elems = [1, 2, 3, 4, 5]\<rparr>
       = Inr \<lparr>st_p10 = 7 / 5, st_p50 = 3, st_p90 = 23 / 5, st_mn = 1, st_mx = 5,
              st_mean = 3, st_std = sqrt 2\<rparr>"
proof (intro conjI impI)
  assume ne: "elems arr \<noteq> []"
  have p: "percentile (elems arr) q =
      Inr (sort (elems arr) ! nat \<lfloor>real (length (elems arr) - 1) * (q / 100)\<rfloor>
           + (real (length (elems arr) - 1) * (q / 100)
              - real (nat \<lfloor>real (length (elems arr) - 1) * (q / 100)\<rfloor>))
             * (sort (elems arr) ! min (nat \<lfloor>real (length (elems arr) - 1) * (q / 100)\<rfloor> + 1)
                                      (length (elems arr) - 1)
                - sort (elems arr) ! nat \<lfloor>real (length (elems arr) - 1) * (q / 100)\<rfloor>))" for q
    using ne by (simp add: percentile_def Let_def)
  have m: "np_mean (elems arr) = Inr (sum_list (elems arr) / real (length (elems arr)))"
    using ne by (simp add: np_mean_def)
  have sd: "np_std (elems arr)
      = Inr (sqrt ((\<Sum>x\<leftarrow>elems arr. (x - sum_list (elems arr) / real (length (elems arr)))\<^sup>2)
                   / real (length (elems arr))))"
    by (simp add: np_std_def m)
  show "let xs = elems arr;
           s = sort xs;
           n = length xs;
           pct = (\<lambda>q. s ! nat \<lfloor>real (n - 1) * (q / 100)\<rfloor>
                    + (real (n - 1) * (q / 100) - real (nat \<lfloor>real (n - 1) * (q / 100)\<rfloor>))
                      * (s ! min (nat \<lfloor>real (n - 1) * (q / 100)\<rfloor> + 1) (n - 1)
                         - s ! nat \<lfloor>real (n - 1) * (q / 100)\<rfloor>));
           mean = sum_list xs / real n
       in quick_statistics arr =
            Inr \<lparr>st_p10 = pct 10, st_p50 = pct 50, st_p90 = pct 90,
                 st_mn = Min (set xs), st_mx = Max (set xs), st_mean = mean,
                 st_std = sqrt ((\<Sum>x\<leftarrow>xs. (x - mean)\<^sup>2) / real n)\<rparr>"
    unfolding Let_def quick_statistics_def
    by (simp only: p m sd np_min_Min [OF ne] np_max_Max [OF ne] sum.case)
next
  have p10: "percentile [1, 2, 3, 4, 5] 10 = Inr (7 / 5)"
    by (simp add: percentile_sorted)
  have p50: "percentile [1, 2, 3, 4, 5] 50 = Inr 3"
    by (simp add: percentile_sorted)
  have p90: "percentile [1, 2, 3, 4, 5] 90 = Inr (23 / 5)"
    by (simp add: percentile_sorted)
  have m: "np_mean [1, 2, 3, 4, 5] = Inr 3" by (simp add: np_mean_def)
  have sd: "np_std [1, 2, 3, 4, 5] = Inr (sqrt 2)" by (simp add: np_std_def m)
  show "quick_statistics \<lparr>shape = [5], elems = [1, 2, 3, 4, 5]\<rparr>
       = Inr \<lparr>st_p10 = 7 / 5, st_p50 = 3, st_p90 = 23 / 5, st_mn = 1, st_mx = 5,
              st_mean = 3, st_std = sqrt 2\<rparr>"
    by (simp add: quick_statistics_def p10 p50 p90 m sd)
qed

theorem quick_statistics_population_witness:
  "elems \<lparr>shape = [2, 4], elems = [9, 4, 5, 2, 4, 7, 5, 4 :: real]\<rparr> \<noteq> []
   \<and> quick_statistics \<lparr>shape = [2, 4], elems = [9, 4, 5, 2, 4, 7, 5, 4]\<rparr>
       = Inr \<lparr>st_p10 = 17 / 5, st_p50 = 9 / 2, st_p90 = 38 / 5, st_mn = 2, st_mx = 9,
              st_mean = 5, st_std = 2\<rparr>"
proof -
  have "sqrt 4 = 2" using real_sqrt_abs [of 2] by simp
  then show ?thesis
    using quick_statistics_population [of "\<lparr>shape = [2, 4], elems = [9, 4, 5, 2, 4, 7, 5, 4]\<rparr>"]
    by (simp add: Let_def)
qed

subsection \<open>One window attribute alone\<close>

text \<open>
  Claim C10. For a dataset that has exactly one of WindowCenter and WindowWidth,
  \<open>default_window\<close> returns what it returns for the same dataset with both
  attributes removed: the attribute is ignored, and when the calibrated samples
  exist and are not empty the centre and the width are \<open>(p99 + p1) / 2\<close> and
  \<open>max 1 (p99 - p1)\<close> of the percentile fallback.
\<close>

theorem default_window_needs_both:
  assumes "(WindowCenter ds = None) \<noteq> (WindowWidth ds = None)"
  shows "default_window ds = default_window (ds\<lparr>WindowCenter := None, WindowWidth := None\<rparr>)
    \<and> (\<forall>arr. get_pixel_array ds = Inr arr \<and> elems arr \<noteq> [] \<longrightarrow>
          (\<exists>p1 p99. percentile (elems arr) 1 = Inr p1 \<and> percentile (elems arr) 99 = Inr p99
             \<and> default_window ds = Inr ((p99 + p1) / 2, max 1 (p99 - p1))))"
proof (intro conjI allI impI)
  from assms show "default_window ds = default_window (ds\<lparr>WindowCenter := None, WindowWidth := None\<rparr>)"
    by (auto simp: default_window_def get_pixel_array_window_irrelevant split: option.splits)
next
  fix arr
  assume h: "get_pixel_array ds = Inr arr \<and> elems arr \<noteq> []"
  then obtain p1 p99 where p: "percentile (elems arr) 1 = Inr p1" "percentile (elems arr) 99 = Inr p99"
    using percentile_defined [of "elems arr"] by blast
  with h assms have "default_window ds = Inr ((p99 + p1) / 2, max 1 (p99 - p1))"
    by (auto simp: default_window_def max_def Let_def split: option.splits)
  with p show "\<exists>p1 p99. percentile (elems arr) 1 = Inr p1 \<and> percentile (elems arr) 99 = Inr p99
             \<and> default_window ds = Inr ((p99 + p1) / 2, max 1 (p99 - p1))"
    by blast
qed

theorem default_window_needs_both_witness:
  "(WindowCenter width_only_dataset = None) \<noteq> (WindowWidth width_only_dataset = None)
   \<and> default_window width_only_dataset = Inr (99 / 2, 4851 / 50)"
proof -
  have h: "(WindowCenter width_only_dataset = None) \<noteq> (WindowWidth width_only_dataset = None)"
    by (simp add: width_only_dataset_def)
  have s: "width_only_dataset\<lparr>WindowCenter := None, WindowWidth := None\<rparr> = ramp_dataset"
    by (simp add: width_only_dataset_def ramp_dataset_def)
  with default_window_needs_both [OF h] dw_ramp h show ?thesis by simp
qed

end
